theory Spec2Isabelle
  imports Main "HOL-Library.Word"
begin

unbundle bit_operations_syntax

section \<open>Data model of peer::ServerAuthenticator\<close>

type_synonym u32 = "32 word"
type_synonym ByteArray = "8 word list"
type_synonym u16string = "16 word list"

text \<open>Outer state of the Authenticator base, read through \<open>state()\<close>.\<close>

datatype State = STOPPED | PENDING | DONE

datatype ErrorCode = SUCCESS | PROTOCOL_ERROR | ACCESS_DENIED | SESSION_DENIED | UNKNOWN_ERROR

datatype AnonymousAccess = ENABLE | DISABLE

datatype InternalState =
    READ_CLIENT_HELLO
  | SEND_SERVER_HELLO
  | READ_IDENTIFY
  | SEND_SERVER_KEY_EXCHANGE
  | READ_CLIENT_KEY_EXCHANGE
  | SEND_SESSION_CHALLENGE
  | READ_SESSION_RESPONSE

datatype HashType = BLAKE2b512 | BLAKE2s256

subsection \<open>Wire messages\<close>

text \<open>
  Modelled from the spec: the protobuf declarations (namespace proto) are not among the sources verified here.
  The enumeration values are the ones of the spec's section 6; protobuf enums are open, so
  a field of enum type is a 32-bit value that may be none of the named constants.
\<close>

definition ENCRYPTION_AES256_GCM :: u32 where
  "ENCRYPTION_AES256_GCM = 1"

definition ENCRYPTION_CHACHA20_POLY1305 :: u32 where
  "ENCRYPTION_CHACHA20_POLY1305 = 2"

definition IDENTIFY_SRP :: u32 where
  "IDENTIFY_SRP = 1"

definition IDENTIFY_ANONYMOUS :: u32 where
  "IDENTIFY_ANONYMOUS = 2"

record ClientHello =
  ch_encryption :: u32
  ch_identify :: u32
  ch_public_key :: ByteArray
  ch_iv :: ByteArray

record ServerHello =
  sh_encryption :: u32
  sh_iv :: ByteArray

record SrpIdentify =
  si_username :: ByteArray

record SrpServerKeyExchange =
  ske_number :: ByteArray
  ske_generator :: ByteArray
  ske_salt :: ByteArray
  ske_b :: ByteArray
  ske_iv :: ByteArray

record SrpClientKeyExchange =
  cke_a :: ByteArray
  cke_iv :: ByteArray

record Version =
  v_major :: u32
  v_minor :: u32
  v_patch :: u32

record SessionChallenge =
  sc_session_types :: u32
  sc_version :: Version
  sc_os_type :: u32
  sc_computer_name :: ByteArray
  sc_cpu_cores :: u32

record SessionResponse =
  sr_session_type :: u32
  sr_version :: Version
  sr_os_type :: u32
  sr_computer_name :: ByteArray
  sr_cpu_cores :: u32

datatype Message =
    MsgServerHello ServerHello
  | MsgSrpServerKeyExchange SrpServerKeyExchange
  | MsgSessionChallenge SessionChallenge

subsection \<open>Collaborators\<close>

text \<open>
  Modelled from the spec: base::BigNum is not among the sources verified here. A big number is either invalid
  (\<open>None\<close>) or a natural number; \<open>isValid\<close> tells the two apart.
\<close>

type_synonym BigNum = "nat option"

definition BigNum_isValid :: "BigNum \<Rightarrow> bool" where
  "BigNum_isValid n = (n \<noteq> None)"

text \<open>
  Modelled from the spec: base::KeyPair is not among the sources verified here. A key pair is either invalid
  (\<open>None\<close>, the default-constructed pair) or holds its key material.
\<close>

type_synonym KeyPair = "ByteArray option"

definition KeyPair_isValid :: "KeyPair \<Rightarrow> bool" where
  "KeyPair_isValid k = (k \<noteq> None)"

text \<open>The user record of peer/user.h, with the fields the authenticator reads.\<close>

record User =
  u_name :: u16string
  u_group :: ByteArray
  u_salt :: ByteArray
  u_verifier :: ByteArray
  u_sessions :: u32
  u_flags :: u32

record UserList =
  ul_find :: "u16string \<Rightarrow> User"
  ul_seedKey :: ByteArray

text \<open>
  Modelled from the spec: base::BitSet (base/bitset.h) is not among the sources verified here. It wraps an
  unsigned integer; \<open>count()\<close> is the number of bits set. The spec calls the selected
  session type "the numeric value carried by the single bit", and its first scenario
  accepts the response 0b0100 against the mask 0b0101 through the test
  \<open>session_types & session_type\<close>, which only the wrapped integer itself passes:
  \<open>value()\<close> returns the wrapped integer.
\<close>

datatype BitSet = BitSet u32

fun BitSet_count :: "BitSet \<Rightarrow> nat" where
  "BitSet_count (BitSet w) = length (filter (bit w) [0..<32])"

fun BitSet_value :: "BitSet \<Rightarrow> u32" where
  "BitSet_value (BitSet w) = w"

text \<open>
  Modelled from the spec: base::GenericHash is not among the sources verified here. The incremental hash
  collects the data added to it; its result is the digest of the concatenation, computed
  by the digest function of the environment.
\<close>

record GenericHash =
  gh_type :: HashType
  gh_data :: ByteArray

definition GenericHash_new :: "HashType \<Rightarrow> GenericHash" where
  "GenericHash_new t = \<lparr>gh_type = t, gh_data = []\<rparr>"

definition addData :: "ByteArray \<Rightarrow> GenericHash \<Rightarrow> GenericHash" where
  "addData d h = h\<lparr>gh_data := gh_data h @ d\<rparr>"

text \<open>
  Modelled from the spec: SrpMath::verify_A_mod_N (base/crypto/srp_math.h) is not among the
  sources verified here; the spec's section 4.2 gives it as \<open>(A mod N) \<noteq> 0\<close>. An invalid operand or a
  zero modulus fails the check.
\<close>

definition verify_A_mod_N :: "BigNum \<Rightarrow> BigNum \<Rightarrow> bool" where
  "verify_A_mod_N A N =
     (case A of None \<Rightarrow> False
      | Some a \<Rightarrow> (case N of None \<Rightarrow> False
                   | Some n \<Rightarrow> if n = 0 then False else a mod n \<noteq> 0))"

subsection \<open>The authenticator object\<close>

text \<open>
  The members of ServerAuthenticator and of its base class that the handlers touch. The
  fields \<open>finished\<close>, \<open>sent\<close>, \<open>key_changes\<close> and \<open>rng\<close> record the effects of the
  base-class calls \<open>finish\<close>, \<open>sendMessage\<close>, \<open>onSessionKeyChanged\<close> and of
  \<open>Random::byteArray\<close>.
\<close>

record ServerAuthenticator =
  state :: State
  finished :: "ErrorCode option"
  sent :: "Message list"
  key_changes :: "ByteArray list"
  rng :: nat
  peer_version :: Version
  internal_state :: InternalState
  user_list :: UserList
  key_pair :: KeyPair
  anonymous_access :: AnonymousAccess
  session_types :: u32
  session_type :: u32
  encryption :: u32
  identify :: u32
  session_key :: ByteArray
  encrypt_iv :: ByteArray
  decrypt_iv :: ByteArray
  user_name :: u16string
  srp_N :: BigNum
  srp_g :: BigNum
  srp_s :: BigNum
  srp_v :: BigNum
  srp_b :: BigNum
  srp_B :: BigNum
  srp_A :: BigNum

text \<open>
  Everything the translation unit calls without defining it is a parameter: the message
  parser, the string conversion, the user validity test and the ENABLED flag, the SRP group
  table, the digest, the big-number conversions, the SRP arithmetic, the CPU feature test,
  the key-pair operations, the random source (indexed by the number of draws made so far),
  the session-key hook of the base class and the host description.
\<close>

record Env =
  parse_ClientHello :: "ByteArray \<Rightarrow> ClientHello option"
  parse_SrpIdentify :: "ByteArray \<Rightarrow> SrpIdentify option"
  parse_SrpClientKeyExchange :: "ByteArray \<Rightarrow> SrpClientKeyExchange option"
  parse_SessionResponse :: "ByteArray \<Rightarrow> SessionResponse option"
  utf16FromUtf8 :: "ByteArray \<Rightarrow> u16string"
  User_isValid :: "User \<Rightarrow> bool"
  User_ENABLED :: u32
  pairByGroup :: "ByteArray \<Rightarrow> (ByteArray \<times> ByteArray) option"
  kSrpNgPair_8192 :: "ByteArray \<times> ByteArray"
  digest :: "HashType \<Rightarrow> ByteArray \<Rightarrow> ByteArray"
  BigNum_fromStdString :: "ByteArray \<Rightarrow> BigNum"
  BigNum_fromByteArray :: "ByteArray \<Rightarrow> BigNum"
  BigNum_toStdString :: "BigNum \<Rightarrow> ByteArray"
  BigNum_toByteArray :: "BigNum \<Rightarrow> ByteArray"
  calc_v :: "u16string \<Rightarrow> ByteArray \<Rightarrow> BigNum \<Rightarrow> BigNum \<Rightarrow> BigNum \<Rightarrow> BigNum"
  calc_B :: "BigNum \<Rightarrow> BigNum \<Rightarrow> BigNum \<Rightarrow> BigNum \<Rightarrow> BigNum"
  calc_u :: "BigNum \<Rightarrow> BigNum \<Rightarrow> BigNum \<Rightarrow> BigNum"
  calcServerKey :: "BigNum \<Rightarrow> BigNum \<Rightarrow> BigNum \<Rightarrow> BigNum \<Rightarrow> BigNum \<Rightarrow> BigNum"
  hasAesNi :: bool
  KeyPair_fromPrivateKey :: "ByteArray \<Rightarrow> KeyPair"
  KeyPair_sessionKey :: "KeyPair \<Rightarrow> ByteArray \<Rightarrow> ByteArray"
  Random_source :: "nat \<Rightarrow> nat \<Rightarrow> ByteArray"
  session_key_hook :: "ServerAuthenticator \<Rightarrow> bool"
  ASPIA_VERSION :: Version
  OS_TYPE :: u32
  computerName :: ByteArray
  processorCores :: u32

definition kIvSize :: nat where
  "kIvSize = 12"

definition result :: "Env \<Rightarrow> GenericHash \<Rightarrow> ByteArray" where
  "result env h = digest env (gh_type h) (gh_data h)"

definition hash :: "Env \<Rightarrow> HashType \<Rightarrow> ByteArray \<Rightarrow> ByteArray" where
  "hash env t d = result env (addData d (GenericHash_new t))"

definition Random_byteArray :: "Env \<Rightarrow> nat \<Rightarrow> ServerAuthenticator \<Rightarrow> ByteArray \<times> ServerAuthenticator" where
  "Random_byteArray env n st = (Random_source env (rng st) n, st\<lparr>rng := rng st + 1\<rparr>)"

text \<open>
  Modelled from the spec: the Authenticator base class is not among the sources verified here. \<open>finish\<close> is
  terminal and idempotent (the first call wins) and moves the outer state to \<open>DONE\<close>;
  \<open>sendMessage\<close> hands a record to the transport; \<open>onSessionKeyChanged\<close> tells the
  transport that the key changed and returns its verdict.
\<close>

definition finish :: "ErrorCode \<Rightarrow> ServerAuthenticator \<Rightarrow> ServerAuthenticator" where
  "finish error_code st =
     (if state st = DONE then st else st\<lparr>state := DONE, finished := Some error_code\<rparr>)"

definition sendMessage :: "Message \<Rightarrow> ServerAuthenticator \<Rightarrow> ServerAuthenticator" where
  "sendMessage m st = st\<lparr>sent := sent st @ [m]\<rparr>"

definition onSessionKeyChanged :: "Env \<Rightarrow> ServerAuthenticator \<Rightarrow> bool \<times> ServerAuthenticator" where
  "onSessionKeyChanged env st =
     (session_key_hook env st, st\<lparr>key_changes := key_changes st @ [session_key st]\<rparr>)"

definition setPeerVersion :: "Version \<Rightarrow> ServerAuthenticator \<Rightarrow> ServerAuthenticator" where
  "setPeerVersion v st = st\<lparr>peer_version := v\<rparr>"

section \<open>Operations\<close>

definition setUserList :: "UserList \<Rightarrow> ServerAuthenticator \<Rightarrow> ServerAuthenticator" where
  "setUserList ul st = st\<lparr>user_list := ul\<rparr>"

definition setPrivateKey :: "Env \<Rightarrow> ByteArray \<Rightarrow> ServerAuthenticator \<Rightarrow> bool \<times> ServerAuthenticator" where
  "setPrivateKey env private_key st =
     (if state st \<noteq> STOPPED then (False, st)
      else if private_key = [] then (False, st)
      else
        let st1 = st\<lparr>key_pair := KeyPair_fromPrivateKey env private_key\<rparr> in
        if \<not> KeyPair_isValid (key_pair st1) then (False, st1)
        else
          let (iv, st2) = Random_byteArray env kIvSize st1;
              st3 = st2\<lparr>encrypt_iv := iv\<rparr> in
          if encrypt_iv st3 = [] then (False, st3) else (True, st3))"

definition setAnonymousAccess :: "AnonymousAccess \<Rightarrow> u32 \<Rightarrow> ServerAuthenticator \<Rightarrow> bool \<times> ServerAuthenticator" where
  "setAnonymousAccess access types st =
     (if state st \<noteq> STOPPED then (False, st)
      else if access = ENABLE then
        (if \<not> KeyPair_isValid (key_pair st) then (False, st)
         else if types = 0 then (False, st)
         else (True, st\<lparr>session_types := types, anonymous_access := access\<rparr>))
      else (True, st\<lparr>session_types := 0, anonymous_access := access\<rparr>))"

definition onStarted :: "ServerAuthenticator \<Rightarrow> bool \<times> ServerAuthenticator" where
  "onStarted st0 =
     (let st = st0\<lparr>internal_state := READ_CLIENT_HELLO\<rparr> in
      if anonymous_access st = ENABLE \<and> \<not> KeyPair_isValid (key_pair st)
      then (False, finish UNKNOWN_ERROR st)
      else if anonymous_access st = ENABLE then
        (if \<not> KeyPair_isValid (key_pair st) then (False, finish UNKNOWN_ERROR st)
         else if session_types st = 0 then (False, finish UNKNOWN_ERROR st)
         else (True, st))
      else
        (if session_types st \<noteq> 0 then (False, finish UNKNOWN_ERROR st)
         else (True, st)))"

definition doSessionChallenge :: "Env \<Rightarrow> ServerAuthenticator \<Rightarrow> ServerAuthenticator" where
  "doSessionChallenge env st =
     sendMessage (MsgSessionChallenge
       \<lparr>sc_session_types = session_types st,
        sc_version = ASPIA_VERSION env,
        sc_os_type = OS_TYPE env,
        sc_computer_name = computerName env,
        sc_cpu_cores = processorCores env\<rparr>) st"

text \<open>
  Each handler runs top to bottom as the source does; a \<open>finish(...); return;\<close> is a
  branch that ends in \<open>finish\<close>. Where the source leaves a block either by an early
  return or by falling through, the block yields \<open>Inl\<close> of the error code or \<open>Inr\<close> of
  what the code after it uses.
\<close>

definition onClientHello :: "Env \<Rightarrow> ByteArray \<Rightarrow> ServerAuthenticator \<Rightarrow> ServerAuthenticator" where
  "onClientHello env buffer st =
     (case parse_ClientHello env buffer of
        None \<Rightarrow> finish PROTOCOL_ERROR st
      | Some client_hello \<Rightarrow>
          if ch_encryption client_hello AND ENCRYPTION_AES256_GCM = 0 \<and>
             ch_encryption client_hello AND ENCRYPTION_CHACHA20_POLY1305 = 0
          then finish PROTOCOL_ERROR st
          else
            let st1 = st\<lparr>identify := ch_identify client_hello\<rparr>;
                method_check =
                  (if identify st1 = IDENTIFY_SRP then None
                   else if identify st1 = IDENTIFY_ANONYMOUS then
                     (if anonymous_access st1 \<noteq> ENABLE then Some ACCESS_DENIED else None)
                   else Some PROTOCOL_ERROR)
            in
            case method_check of
              Some error_code \<Rightarrow> finish error_code st1
            | None \<Rightarrow>
                let server_hello = \<lparr>sh_encryption = 0, sh_iv = []\<rparr>;
                    key_block =
                      (if KeyPair_isValid (key_pair st1) then
                         let peer_public_key = ch_public_key client_hello;
                             st2 = st1\<lparr>decrypt_iv := ch_iv client_hello\<rparr> in
                         if (peer_public_key = []) \<noteq> (decrypt_iv st2 = [])
                         then Inl (PROTOCOL_ERROR, st2)
                         else if peer_public_key \<noteq> [] \<and> decrypt_iv st2 \<noteq> [] then
                           let temp = KeyPair_sessionKey env (key_pair st2) peer_public_key in
                           if temp = [] then Inl (UNKNOWN_ERROR, st2)
                           else
                             let st3 = st2\<lparr>session_key := hash env BLAKE2s256 temp\<rparr> in
                             if session_key st3 = [] then Inl (UNKNOWN_ERROR, st3)
                             else Inr (server_hello\<lparr>sh_iv := encrypt_iv st3\<rparr>, st3)
                         else Inr (server_hello, st2)
                       else Inr (server_hello, st1))
                in
                case key_block of
                  Inl (error_code, st4) \<Rightarrow> finish error_code st4
                | Inr (server_hello1, st4) \<Rightarrow>
                    let server_hello2 =
                          (if ch_encryption client_hello AND ENCRYPTION_AES256_GCM \<noteq> 0 \<and> hasAesNi env
                           then server_hello1\<lparr>sh_encryption := ENCRYPTION_AES256_GCM\<rparr>
                           else server_hello1\<lparr>sh_encryption := ENCRYPTION_CHACHA20_POLY1305\<rparr>);
                        st5 = st4\<lparr>internal_state := SEND_SERVER_HELLO,
                                  encryption := sh_encryption server_hello2\<rparr>
                    in sendMessage (MsgServerHello server_hello2) st5)"

definition onIdentify :: "Env \<Rightarrow> ByteArray \<Rightarrow> ServerAuthenticator \<Rightarrow> ServerAuthenticator" where
  "onIdentify env buffer st =
     (case parse_SrpIdentify env buffer of
        None \<Rightarrow> finish PROTOCOL_ERROR st
      | Some msg \<Rightarrow>
          let st1 = st\<lparr>user_name := utf16FromUtf8 env (si_username msg)\<rparr> in
          if user_name st1 = [] then finish PROTOCOL_ERROR st1
          else
            let user = ul_find (user_list st1) (user_name st1);
                found =
                  (if User_isValid env user \<and> u_flags user AND User_ENABLED env \<noteq> 0 then
                     let st2 = st1\<lparr>session_types := u_sessions user\<rparr> in
                     case pairByGroup env (u_group user) of
                       Some Ng_pair \<Rightarrow>
                         Inr (st2\<lparr>srp_N := BigNum_fromStdString env (fst Ng_pair),
                                  srp_g := BigNum_fromStdString env (snd Ng_pair),
                                  srp_s := BigNum_fromByteArray env (u_salt user),
                                  srp_v := BigNum_fromByteArray env (u_verifier user)\<rparr>)
                     | None \<Rightarrow> Inl st2
                   else Inl st1);
                st4 =
                  (case found of
                     Inr st3 \<Rightarrow> st3
                   | Inl st3 \<Rightarrow>
                       let st3a = st3\<lparr>session_types := 0\<rparr>;
                           h = addData (si_username msg)
                                 (addData (ul_seedKey (user_list st3a)) (GenericHash_new BLAKE2b512));
                           st3b = st3a\<lparr>srp_N := BigNum_fromStdString env (fst (kSrpNgPair_8192 env))\<rparr>;
                           st3c = st3b\<lparr>srp_g := BigNum_fromStdString env (snd (kSrpNgPair_8192 env))\<rparr>;
                           st3d = st3c\<lparr>srp_s := BigNum_fromByteArray env (result env h)\<rparr>
                       in st3d\<lparr>srp_v := calc_v env (user_name st3d) (ul_seedKey (user_list st3d))
                                           (srp_s st3d) (srp_N st3d) (srp_g st3d)\<rparr>);
                (rnd, st5) = Random_byteArray env 128 st4;
                st6 = st5\<lparr>srp_b := BigNum_fromByteArray env rnd\<rparr>;
                st7 = st6\<lparr>srp_B := calc_B env (srp_b st6) (srp_N st6) (srp_g st6) (srp_v st6)\<rparr>
            in
            if \<not> BigNum_isValid (srp_N st7) \<or> \<not> BigNum_isValid (srp_g st7) \<or>
               \<not> BigNum_isValid (srp_s st7) \<or> \<not> BigNum_isValid (srp_B st7)
            then finish PROTOCOL_ERROR st7
            else
              let st8 = st7\<lparr>internal_state := SEND_SERVER_KEY_EXCHANGE\<rparr>;
                  (iv, st9) = Random_byteArray env kIvSize st8;
                  st10 = st9\<lparr>encrypt_iv := iv\<rparr>;
                  server_key_exchange =
                    \<lparr>ske_number = BigNum_toStdString env (srp_N st10),
                     ske_generator = BigNum_toStdString env (srp_g st10),
                     ske_salt = BigNum_toStdString env (srp_s st10),
                     ske_b = BigNum_toStdString env (srp_B st10),
                     ske_iv = encrypt_iv st10\<rparr>
              in sendMessage (MsgSrpServerKeyExchange server_key_exchange) st10)"

definition createSrpKey :: "Env \<Rightarrow> ServerAuthenticator \<Rightarrow> ByteArray" where
  "createSrpKey env st =
     (if \<not> verify_A_mod_N (srp_A st) (srp_N st) then []
      else
        let u = calc_u env (srp_A st) (srp_B st) (srp_N st);
            server_key = calcServerKey env (srp_A st) (srp_v st) u (srp_b st) (srp_N st)
        in BigNum_toByteArray env server_key)"

definition onClientKeyExchange :: "Env \<Rightarrow> ByteArray \<Rightarrow> ServerAuthenticator \<Rightarrow> ServerAuthenticator" where
  "onClientKeyExchange env buffer st =
     (case parse_SrpClientKeyExchange env buffer of
        None \<Rightarrow> finish PROTOCOL_ERROR st
      | Some client_key_exchange \<Rightarrow>
          let st1 = st\<lparr>srp_A := BigNum_fromStdString env (cke_a client_key_exchange)\<rparr>;
              st2 = st1\<lparr>decrypt_iv := cke_iv client_key_exchange\<rparr> in
          if \<not> BigNum_isValid (srp_A st2) \<or> decrypt_iv st2 = [] then finish PROTOCOL_ERROR st2
          else
            let srp_key = createSrpKey env st2 in
            if srp_key = [] then finish UNKNOWN_ERROR st2
            else if encryption st2 = ENCRYPTION_AES256_GCM \<or>
                    encryption st2 = ENCRYPTION_CHACHA20_POLY1305 then
              let h0 = GenericHash_new BLAKE2s256;
                  h1 = (if session_key st2 \<noteq> [] then addData (session_key st2) h0 else h0);
                  h2 = addData srp_key h1;
                  st3 = st2\<lparr>session_key := result env h2\<rparr>;
                  (ok, st4) = onSessionKeyChanged env st3
              in
              if \<not> ok then st4
              else doSessionChallenge env (st4\<lparr>internal_state := SEND_SESSION_CHALLENGE\<rparr>)
            else finish UNKNOWN_ERROR st2)"

definition onSessionResponse :: "Env \<Rightarrow> ByteArray \<Rightarrow> ServerAuthenticator \<Rightarrow> ServerAuthenticator" where
  "onSessionResponse env buffer st =
     (case parse_SessionResponse env buffer of
        None \<Rightarrow> finish PROTOCOL_ERROR st
      | Some session_response \<Rightarrow>
          let st1 = setPeerVersion (sr_version session_response) st;
              session_type_set = BitSet (sr_session_type session_response) in
          if BitSet_count session_type_set \<noteq> 1 then finish PROTOCOL_ERROR st1
          else
            let st2 = st1\<lparr>session_type := BitSet_value session_type_set\<rparr> in
            if session_types st2 AND session_type st2 = 0 then finish SESSION_DENIED st2
            else finish SUCCESS st2)"

text \<open>\<open>NOTREACHED()\<close> is a debug assertion: in a release build the call does nothing.\<close>

definition onReceived :: "Env \<Rightarrow> ByteArray \<Rightarrow> ServerAuthenticator \<Rightarrow> ServerAuthenticator" where
  "onReceived env buffer st =
     (case internal_state st of
        READ_CLIENT_HELLO \<Rightarrow> onClientHello env buffer st
      | READ_IDENTIFY \<Rightarrow> onIdentify env buffer st
      | READ_CLIENT_KEY_EXCHANGE \<Rightarrow> onClientKeyExchange env buffer st
      | READ_SESSION_RESPONSE \<Rightarrow> onSessionResponse env buffer st
      | _ \<Rightarrow> st)"





subsection \<open>Configuration sequences\<close>

text \<open>
  A caller configures the stopped authenticator by a sequence of setter calls. The
  invariants of the configuration are stated on the state such a sequence leaves.
\<close>

datatype ConfigCall = SetPrivateKey ByteArray | SetAnonymousAccess AnonymousAccess u32

fun configure :: "Env \<Rightarrow> ConfigCall \<Rightarrow> ServerAuthenticator \<Rightarrow> bool \<times> ServerAuthenticator" where
  "configure env (SetPrivateKey private_key) st = setPrivateKey env private_key st"
| "configure env (SetAnonymousAccess access types) st = setAnonymousAccess access types st"

fun configure_all :: "Env \<Rightarrow> ConfigCall list \<Rightarrow> ServerAuthenticator \<Rightarrow> ServerAuthenticator" where
  "configure_all env [] st = st"
| "configure_all env (call # calls) st = configure_all env calls (snd (configure env call st))"

definition session_types_consistent :: "ServerAuthenticator \<Rightarrow> bool" where
  "session_types_consistent st =
     (if anonymous_access st = ENABLE then session_types st \<noteq> 0 else session_types st = 0)"

definition config_invariant :: "ServerAuthenticator \<Rightarrow> bool" where
  "config_invariant st =
     ((anonymous_access st = ENABLE \<longrightarrow> KeyPair_isValid (key_pair st) \<and> session_types st \<noteq> 0) \<and>
      (anonymous_access st = DISABLE \<longrightarrow> session_types st = 0))"

section \<open>An example configuration\<close>

text \<open>
  A small environment on which the handlers can be run: one-byte fields on the wire, a user
  list with an enabled user "a", a disabled user "b" and a user "c" of an unknown SRP
  group, and stand-ins for the cryptographic primitives.
\<close>

definition demo_users :: UserList where
  "demo_users =
     \<lparr>ul_find = (\<lambda>n.
         if n = [97] then
           \<lparr>u_name = [97], u_group = [1], u_salt = [7], u_verifier = [9],
            u_sessions = 5, u_flags = 1\<rparr>
         else if n = [98] then
           \<lparr>u_name = [98], u_group = [1], u_salt = [8], u_verifier = [10],
            u_sessions = 5, u_flags = 0\<rparr>
         else if n = [99] then
           \<lparr>u_name = [99], u_group = [2], u_salt = [8], u_verifier = [10],
            u_sessions = 5, u_flags = 1\<rparr>
         else
           \<lparr>u_name = [], u_group = [], u_salt = [], u_verifier = [],
            u_sessions = 0, u_flags = 0\<rparr>),
      ul_seedKey = [42]\<rparr>"

definition demo_env :: Env where
  "demo_env =
     \<lparr>parse_ClientHello = (\<lambda>b. case b of
          [e, i, p, v] \<Rightarrow>
            Some \<lparr>ch_encryption = ucast e, ch_identify = ucast i,
                  ch_public_key = (if p = 0 then [] else [p]),
                  ch_iv = (if v = 0 then [] else [v])\<rparr>
        | _ \<Rightarrow> None),
      parse_SrpIdentify = (\<lambda>b. Some \<lparr>si_username = b\<rparr>),
      parse_SrpClientKeyExchange = (\<lambda>b. case b of
          [a, v] \<Rightarrow>
            Some \<lparr>cke_a = (if a = 0 then [] else [a]), cke_iv = (if v = 0 then [] else [v])\<rparr>
        | _ \<Rightarrow> None),
      parse_SessionResponse = (\<lambda>b. case b of
          [t] \<Rightarrow>
            Some \<lparr>sr_session_type = ucast t,
                  sr_version = \<lparr>v_major = 2, v_minor = 0, v_patch = 0\<rparr>,
                  sr_os_type = 1, sr_computer_name = [], sr_cpu_cores = 1\<rparr>
        | _ \<Rightarrow> None),
      utf16FromUtf8 = map ucast,
      User_isValid = (\<lambda>u. u_name u \<noteq> []),
      User_ENABLED = 1,
      pairByGroup = (\<lambda>g. if g = [1] then Some ([23], [5]) else None),
      kSrpNgPair_8192 = ([47], [5]),
      digest = (\<lambda>t d. (case t of BLAKE2b512 \<Rightarrow> 1 | BLAKE2s256 \<Rightarrow> 2) # d),
      BigNum_fromStdString =
        (\<lambda>b. if b = [] then None else Some (foldl (\<lambda>n x. n * 256 + unat x) 0 b)),
      BigNum_fromByteArray =
        (\<lambda>b. if b = [] then None else Some (foldl (\<lambda>n x. n * 256 + unat x) 0 b)),
      BigNum_toStdString = (\<lambda>n. case n of None \<Rightarrow> [] | Some k \<Rightarrow> [of_nat k]),
      BigNum_toByteArray = (\<lambda>n. case n of None \<Rightarrow> [] | Some k \<Rightarrow> [of_nat k]),
      calc_v = (\<lambda>I p s N g. Some 3),
      calc_B = (\<lambda>b N g v. Some 4),
      calc_u = (\<lambda>A B N. Some 5),
      calcServerKey = (\<lambda>A v u b N. Some 6),
      hasAesNi = False,
      KeyPair_fromPrivateKey = (\<lambda>k. if hd k = 0 then None else Some k),
      KeyPair_sessionKey =
        (\<lambda>kp pub. case kp of None \<Rightarrow> [] | Some k \<Rightarrow> if pub = [255] then [] else k @ pub),
      Random_source = (\<lambda>i n. replicate n (of_nat (i + 1))),
      session_key_hook = (\<lambda>st. True),
      ASPIA_VERSION = \<lparr>v_major = 2, v_minor = 0, v_patch = 0\<rparr>,
      OS_TYPE = 1,
      computerName = [],
      processorCores = 4\<rparr>"

text \<open>A freshly constructed authenticator: stopped, no key pair, anonymous access off.\<close>

definition demo_server :: ServerAuthenticator where
  "demo_server =
     \<lparr>state = STOPPED, finished = None, sent = [], key_changes = [], rng = 0,
      peer_version = \<lparr>v_major = 0, v_minor = 0, v_patch = 0\<rparr>,
      internal_state = READ_CLIENT_HELLO, user_list = demo_users, key_pair = None,
      anonymous_access = DISABLE, session_types = 0, session_type = 0, encryption = 0,
      identify = 0, session_key = [], encrypt_iv = [], decrypt_iv = [], user_name = [],
      srp_N = None, srp_g = None, srp_s = None, srp_v = None, srp_b = None, srp_B = None,
      srp_A = None\<rparr>"

section \<open>Properties\<close>

subsection \<open>The bit set and the SessionResponse\<close>

lemma BitSet_count_card: "BitSet_count (BitSet w) = card {i. bit w i}"
proof -
  have "{i. bit w i} \<inter> set [0..<32] = {i. bit w i}"
    using bit_imp_le_length [of w] by auto
  then show ?thesis
    by (simp add: distinct_length_filter del: set_upt)
qed

lemma BitSet_count_one: "BitSet_count (BitSet w) = 1 \<longleftrightarrow> (\<exists>i<32. w = 2 ^ i)"
proof
  assume "BitSet_count (BitSet w) = 1"
  then have "card {i. bit w i} = 1"
    by (simp only: BitSet_count_card)
  then obtain i where i: "{k. bit w k} = {i}"
    by (auto simp: card_1_singleton_iff)
  then have bi: "bit w k \<longleftrightarrow> k = i" for k
    by auto
  then have "bit w i" by simp
  then have "i < 32"
    using bit_imp_le_length [of w i] by simp
  moreover have "w = 2 ^ i"
    by (rule bit_eqI) (simp add: bi bit_exp_iff)
  ultimately show "\<exists>i<32. w = 2 ^ i" by blast
next
  assume "\<exists>i<32. w = 2 ^ i"
  then obtain i where "i < 32" "w = 2 ^ i" by blast
  then have "{k. bit w k} = {i}"
    by (auto simp: bit_exp_iff)
  then show "BitSet_count (BitSet w) = 1"
    by (simp only: BitSet_count_card) simp
qed

lemma BitSet_count_3: "BitSet_count (BitSet 3) = 2"
  by code_simp

text \<open>
  C2. A parsable SessionResponse that arrives in READ_SESSION_RESPONSE while the handshake
  is pending ends it: with PROTOCOL_ERROR when the number of bits set in the session type
  mask is not exactly one, else with SESSION_DENIED when the selected session type shares
  no bit with the effective session_types mask, and with SUCCESS otherwise.
\<close>

theorem session_response_outcome:
  assumes "state st = PENDING"
    and "internal_state st = READ_SESSION_RESPONSE"
    and "parse_SessionResponse env buffer = Some r"
  shows "finished (onReceived env buffer st) =
           Some (if BitSet_count (BitSet (sr_session_type r)) \<noteq> 1 then PROTOCOL_ERROR
                 else if session_types st AND sr_session_type r = 0 then SESSION_DENIED
                 else SUCCESS)"
  using assms
  by (simp add: onReceived_def onSessionResponse_def setPeerVersion_def finish_def Let_def)

theorem session_response_outcome_witness:
  "state (demo_server\<lparr>state := PENDING, internal_state := READ_SESSION_RESPONSE, session_types := 5\<rparr>) = PENDING
   \<and> parse_SessionResponse demo_env [4] \<noteq> None
   \<and> finished (onReceived demo_env [4]
        (demo_server\<lparr>state := PENDING, internal_state := READ_SESSION_RESPONSE, session_types := 5\<rparr>))
       = Some SUCCESS
   \<and> finished (onReceived demo_env [2]
        (demo_server\<lparr>state := PENDING, internal_state := READ_SESSION_RESPONSE, session_types := 5\<rparr>))
       = Some SESSION_DENIED
   \<and> finished (onReceived demo_env [3]
        (demo_server\<lparr>state := PENDING, internal_state := READ_SESSION_RESPONSE, session_types := 5\<rparr>))
       = Some PROTOCOL_ERROR"
  using session_response_outcome [of "demo_server\<lparr>state := PENDING, internal_state := READ_SESSION_RESPONSE, session_types := 5\<rparr>" demo_env "[4]"]
    session_response_outcome [of "demo_server\<lparr>state := PENDING, internal_state := READ_SESSION_RESPONSE, session_types := 5\<rparr>" demo_env "[2]"]
    session_response_outcome [of "demo_server\<lparr>state := PENDING, internal_state := READ_SESSION_RESPONSE, session_types := 5\<rparr>" demo_env "[3]"]
    BitSet_count_one [of 4, THEN iffD2, OF exI [of _ 2]]
    BitSet_count_one [of 2, THEN iffD2, OF exI [of _ 1]]
    BitSet_count_3
  by (simp add: demo_env_def demo_server_def)

subsection \<open>Shared facts\<close>

lemmas proto_defs =
  ENCRYPTION_AES256_GCM_def ENCRYPTION_CHACHA20_POLY1305_def IDENTIFY_SRP_def IDENTIFY_ANONYMOUS_def

lemmas hash_defs = hash_def result_def addData_def GenericHash_new_def


subsection \<open>ClientHello\<close>




text \<open>
  C6, as stated, fails: the identify check comes before the key envelope, so with a valid
  key pair and anonymous access disabled an anonymous ClientHello with an iv and no public
  key finishes with ACCESS_DENIED, not PROTOCOL_ERROR.
\<close>

theorem key_envelope_counterexample:
  "KeyPair_isValid (key_pair (demo_server\<lparr>state := PENDING, key_pair := Some [1, 2]\<rparr>))
   \<and> map_option ch_public_key (parse_ClientHello demo_env [1, 2, 0, 8]) = Some []
   \<and> map_option ch_iv (parse_ClientHello demo_env [1, 2, 0, 8]) = Some [8]
   \<and> finished (onClientHello demo_env [1, 2, 0, 8]
        (demo_server\<lparr>state := PENDING, key_pair := Some [1, 2]\<rparr>)) = Some ACCESS_DENIED"
  by (simp add: demo_env_def demo_server_def onClientHello_def finish_def proto_defs
      KeyPair_isValid_def Let_def)

text \<open>
  C6, amended. With a valid key pair, a ClientHello that passes the cipher-offer and
  identify checks: records the client iv as decrypt_iv; finishes with PROTOCOL_ERROR when
  exactly one of public_key and iv is empty; and when both are non-empty, finishes with
  UNKNOWN_ERROR if the ECDH shared secret or its BLAKE2s-256 digest is empty, and otherwise
  sets session_key to the BLAKE2s-256 digest of the shared secret and sends a ServerHello
  with the server's pre-generated encrypt_iv.
\<close>

theorem key_envelope:
  assumes "state st = PENDING"
    and "KeyPair_isValid (key_pair st)"
    and "parse_ClientHello env buffer = Some ch"
    and "ch_encryption ch AND ENCRYPTION_AES256_GCM \<noteq> 0 \<or>
         ch_encryption ch AND ENCRYPTION_CHACHA20_POLY1305 \<noteq> 0"
    and "ch_identify ch = IDENTIFY_SRP \<or>
         ch_identify ch = IDENTIFY_ANONYMOUS \<and> anonymous_access st = ENABLE"
    and "shared = KeyPair_sessionKey env (key_pair st) (ch_public_key ch)"
  shows "decrypt_iv (onClientHello env buffer st) = ch_iv ch
       \<and> ((ch_public_key ch = []) \<noteq> (ch_iv ch = []) \<longrightarrow>
            finished (onClientHello env buffer st) = Some PROTOCOL_ERROR)
       \<and> (ch_public_key ch \<noteq> [] \<and> ch_iv ch \<noteq> [] \<longrightarrow>
            (shared = [] \<or> digest env BLAKE2s256 shared = [] \<longrightarrow>
               finished (onClientHello env buffer st) = Some UNKNOWN_ERROR
               \<and> sent (onClientHello env buffer st) = sent st)
          \<and> (shared \<noteq> [] \<and> digest env BLAKE2s256 shared \<noteq> [] \<longrightarrow>
               session_key (onClientHello env buffer st) = digest env BLAKE2s256 shared
               \<and> state (onClientHello env buffer st) = PENDING
               \<and> sent (onClientHello env buffer st) =
                   sent st @ [MsgServerHello
                     \<lparr>sh_encryption = encryption (onClientHello env buffer st),
                      sh_iv = encrypt_iv st\<rparr>]))"
proof -
  let ?st' = "onClientHello env buffer st"
  have iv: "decrypt_iv ?st' = ch_iv ch"
    using assms
    by (auto simp add: onClientHello_def Let_def finish_def sendMessage_def hash_defs)
  have mismatch: "finished ?st' = Some PROTOCOL_ERROR"
    if "(ch_public_key ch = []) \<noteq> (ch_iv ch = [])"
    using assms that
    by (auto simp add: onClientHello_def Let_def finish_def)
  have failed: "finished ?st' = Some UNKNOWN_ERROR \<and> sent ?st' = sent st"
    if "ch_public_key ch \<noteq> []" "ch_iv ch \<noteq> []"
      "shared = [] \<or> digest env BLAKE2s256 shared = []"
    using assms that
    by (auto simp add: onClientHello_def Let_def finish_def hash_defs)
  have ok: "session_key ?st' = digest env BLAKE2s256 shared
               \<and> state ?st' = PENDING
               \<and> sent ?st' =
                   sent st @ [MsgServerHello
                     \<lparr>sh_encryption = encryption ?st', sh_iv = encrypt_iv st\<rparr>]"
    if "ch_public_key ch \<noteq> []" "ch_iv ch \<noteq> []"
      "shared \<noteq> []" "digest env BLAKE2s256 shared \<noteq> []"
    using assms that
    by (auto simp add: onClientHello_def Let_def sendMessage_def hash_defs)
  show ?thesis
    using iv mismatch failed ok by blast
qed

theorem key_envelope_witness:
  "KeyPair_isValid (key_pair (demo_server\<lparr>state := PENDING, key_pair := Some [1, 2], encrypt_iv := [6]\<rparr>))
   \<and> finished (onClientHello demo_env [1, 1, 0, 8]
        (demo_server\<lparr>state := PENDING, key_pair := Some [1, 2], encrypt_iv := [6]\<rparr>)) = Some PROTOCOL_ERROR
   \<and> finished (onClientHello demo_env [1, 1, 9, 0]
        (demo_server\<lparr>state := PENDING, key_pair := Some [1, 2], encrypt_iv := [6]\<rparr>)) = Some PROTOCOL_ERROR
   \<and> finished (onClientHello demo_env [1, 1, 255, 8]
        (demo_server\<lparr>state := PENDING, key_pair := Some [1, 2], encrypt_iv := [6]\<rparr>)) = Some UNKNOWN_ERROR
   \<and> session_key (onClientHello demo_env [1, 1, 9, 8]
        (demo_server\<lparr>state := PENDING, key_pair := Some [1, 2], encrypt_iv := [6]\<rparr>))
       = digest demo_env BLAKE2s256 [1, 2, 9]
   \<and> decrypt_iv (onClientHello demo_env [1, 1, 9, 8]
        (demo_server\<lparr>state := PENDING, key_pair := Some [1, 2], encrypt_iv := [6]\<rparr>)) = [8]
   \<and> sent (onClientHello demo_env [1, 1, 9, 8]
        (demo_server\<lparr>state := PENDING, key_pair := Some [1, 2], encrypt_iv := [6]\<rparr>))
       = [MsgServerHello \<lparr>sh_encryption = ENCRYPTION_CHACHA20_POLY1305, sh_iv = [6]\<rparr>]"
proof -
  let ?st = "demo_server\<lparr>state := PENDING, key_pair := Some [1, 2], encrypt_iv := [6]\<rparr>"
  have enc: "encryption (onClientHello demo_env [1, 1, 9, 8] ?st) = ENCRYPTION_CHACHA20_POLY1305"
    by (simp add: demo_env_def demo_server_def onClientHello_def finish_def proto_defs
      KeyPair_isValid_def Let_def sendMessage_def hash_defs)
  show ?thesis
    using key_envelope [of ?st demo_env "[1, 1, 0, 8]", OF _ _ _ _ _ refl]
      key_envelope [of ?st demo_env "[1, 1, 9, 0]", OF _ _ _ _ _ refl]
      key_envelope [of ?st demo_env "[1, 1, 255, 8]", OF _ _ _ _ _ refl]
      key_envelope [of ?st demo_env "[1, 1, 9, 8]", OF _ _ _ _ _ refl]
      enc
    by (simp add: demo_env_def demo_server_def proto_defs KeyPair_isValid_def)
qed

text \<open>
  C10. Without a valid key pair, onClientHello ignores the public_key and iv of the
  ClientHello: the handler behaves as on the same message with both fields cleared, its
  result does not depend on the ECDH function, session_key and decrypt_iv stay as they were,
  and a message that passes the cipher and identify checks raises no error and is answered
  by a ServerHello without iv that carries the selected cipher.
\<close>

theorem no_key_pair_ignores_key_fields:
  assumes "\<not> KeyPair_isValid (key_pair st)"
  shows "onClientHello
           (env\<lparr>parse_ClientHello :=
              \<lambda>b. map_option (\<lambda>ch. ch\<lparr>ch_public_key := [], ch_iv := []\<rparr>) (parse_ClientHello env b)\<rparr>)
           buffer st
         = onClientHello env buffer st
       \<and> onClientHello (env\<lparr>KeyPair_sessionKey := f\<rparr>) buffer st = onClientHello env buffer st
       \<and> session_key (onClientHello env buffer st) = session_key st
       \<and> decrypt_iv (onClientHello env buffer st) = decrypt_iv st
       \<and> (\<forall>ch. state st = PENDING \<and> parse_ClientHello env buffer = Some ch \<and>
            (ch_encryption ch AND ENCRYPTION_AES256_GCM \<noteq> 0 \<or>
             ch_encryption ch AND ENCRYPTION_CHACHA20_POLY1305 \<noteq> 0) \<and>
            (ch_identify ch = IDENTIFY_SRP \<or>
             ch_identify ch = IDENTIFY_ANONYMOUS \<and> anonymous_access st = ENABLE) \<longrightarrow>
              state (onClientHello env buffer st) = PENDING
              \<and> finished (onClientHello env buffer st) = finished st
              \<and> internal_state (onClientHello env buffer st) = SEND_SERVER_HELLO
              \<and> sent (onClientHello env buffer st) =
                  sent st @ [MsgServerHello
                    \<lparr>sh_encryption =
                       (if ch_encryption ch AND ENCRYPTION_AES256_GCM \<noteq> 0 \<and> hasAesNi env
                        then ENCRYPTION_AES256_GCM else ENCRYPTION_CHACHA20_POLY1305),
                     sh_iv = []\<rparr>])"
proof -
  have a: "onClientHello
           (env\<lparr>parse_ClientHello :=
              \<lambda>b. map_option (\<lambda>ch. ch\<lparr>ch_public_key := [], ch_iv := []\<rparr>) (parse_ClientHello env b)\<rparr>)
           buffer st
         = onClientHello env buffer st"
    using assms by (cases "parse_ClientHello env buffer") (simp_all add: onClientHello_def Let_def)
  have b: "onClientHello (env\<lparr>KeyPair_sessionKey := f\<rparr>) buffer st = onClientHello env buffer st"
    using assms by (cases "parse_ClientHello env buffer") (simp_all add: onClientHello_def Let_def)
  have c: "session_key (onClientHello env buffer st) = session_key st"
    using assms
    by (cases "parse_ClientHello env buffer")
      (simp_all add: onClientHello_def Let_def finish_def sendMessage_def split: option.splits)
  have c': "decrypt_iv (onClientHello env buffer st) = decrypt_iv st"
    using assms
    by (cases "parse_ClientHello env buffer")
      (simp_all add: onClientHello_def Let_def finish_def sendMessage_def split: option.splits)
  have d: "\<forall>ch. state st = PENDING \<and> parse_ClientHello env buffer = Some ch \<and>
            (ch_encryption ch AND ENCRYPTION_AES256_GCM \<noteq> 0 \<or>
             ch_encryption ch AND ENCRYPTION_CHACHA20_POLY1305 \<noteq> 0) \<and>
            (ch_identify ch = IDENTIFY_SRP \<or>
             ch_identify ch = IDENTIFY_ANONYMOUS \<and> anonymous_access st = ENABLE) \<longrightarrow>
              state (onClientHello env buffer st) = PENDING
              \<and> finished (onClientHello env buffer st) = finished st
              \<and> internal_state (onClientHello env buffer st) = SEND_SERVER_HELLO
              \<and> sent (onClientHello env buffer st) =
                  sent st @ [MsgServerHello
                    \<lparr>sh_encryption =
                       (if ch_encryption ch AND ENCRYPTION_AES256_GCM \<noteq> 0 \<and> hasAesNi env
                        then ENCRYPTION_AES256_GCM else ENCRYPTION_CHACHA20_POLY1305),
                     sh_iv = []\<rparr>]"
    using assms
    by (auto simp add: onClientHello_def Let_def finish_def sendMessage_def)
  show ?thesis
    by (rule conjI [OF a conjI [OF b conjI [OF c conjI [OF c' d]]]])
qed

theorem no_key_pair_ignores_key_fields_witness:
  "\<not> KeyPair_isValid (key_pair (demo_server\<lparr>state := PENDING\<rparr>))
   \<and> map_option ch_public_key (parse_ClientHello demo_env [3, 1, 9, 8]) = Some [9]
   \<and> map_option ch_iv (parse_ClientHello demo_env [3, 1, 9, 8]) = Some [8]
   \<and> onClientHello demo_env [3, 1, 9, 8] (demo_server\<lparr>state := PENDING\<rparr>)
       = onClientHello demo_env [3, 1, 0, 0] (demo_server\<lparr>state := PENDING\<rparr>)
   \<and> finished (onClientHello demo_env [3, 1, 9, 8] (demo_server\<lparr>state := PENDING\<rparr>)) = None
   \<and> session_key (onClientHello demo_env [3, 1, 9, 8] (demo_server\<lparr>state := PENDING\<rparr>)) = []
   \<and> sent (onClientHello demo_env [3, 1, 9, 8] (demo_server\<lparr>state := PENDING\<rparr>))
       = [MsgServerHello \<lparr>sh_encryption = ENCRYPTION_CHACHA20_POLY1305, sh_iv = []\<rparr>]"
proof -
  let ?st = "demo_server\<lparr>state := PENDING\<rparr>"
  have k: "\<not> KeyPair_isValid (key_pair ?st)"
    by (simp add: demo_server_def KeyPair_isValid_def)
  have p: "parse_ClientHello demo_env [3, 1, 9, 8] =
     Some \<lparr>ch_encryption = 3, ch_identify = 1, ch_public_key = [9], ch_iv = [8]\<rparr>"
    by (simp add: demo_env_def)
  have q: "onClientHello
           (demo_env\<lparr>parse_ClientHello :=
              \<lambda>b. map_option (\<lambda>ch. ch\<lparr>ch_public_key := [], ch_iv := []\<rparr>) (parse_ClientHello demo_env b)\<rparr>)
           [3, 1, 9, 8] ?st = onClientHello demo_env [3, 1, 0, 0] ?st"
    by (simp add: onClientHello_def demo_env_def demo_server_def Let_def proto_defs
        KeyPair_isValid_def sendMessage_def finish_def)
  note t = no_key_pair_ignores_key_fields [OF k, of demo_env "[3, 1, 9, 8]"]
  from t have t1: "onClientHello demo_env [3, 1, 9, 8] ?st = onClientHello demo_env [3, 1, 0, 0] ?st"
    using q by simp
  from t have t3: "session_key (onClientHello demo_env [3, 1, 9, 8] ?st) = []"
    by (simp add: demo_server_def)
  from t p have t4: "state (onClientHello demo_env [3, 1, 9, 8] ?st) = PENDING
              \<and> finished (onClientHello demo_env [3, 1, 9, 8] ?st) = finished ?st
              \<and> internal_state (onClientHello demo_env [3, 1, 9, 8] ?st) = SEND_SERVER_HELLO
              \<and> sent (onClientHello demo_env [3, 1, 9, 8] ?st) =
                  sent ?st @ [MsgServerHello
                    \<lparr>sh_encryption =
                       (if (3::32 word) AND ENCRYPTION_AES256_GCM \<noteq> 0 \<and> hasAesNi demo_env
                        then ENCRYPTION_AES256_GCM else ENCRYPTION_CHACHA20_POLY1305),
                     sh_iv = []\<rparr>]"
    by (simp add: proto_defs)
  have h: "\<not> hasAesNi demo_env" by (simp add: demo_env_def)
  show ?thesis
    using k p t1 t3 t4 h by (simp add: demo_server_def)
qed

text \<open>
  C3. A ClientHello that passes the checks before the cipher selection (the handler does
  not finish the pending handshake) has its cipher recorded in \<open>encryption\<close> and echoed in
  the ServerHello: AES256_GCM if and only if the client's mask includes AES256_GCM and the
  host CPU reports AES hardware support, and CHACHA20_POLY1305 in every other case.
\<close>

theorem cipher_selection:
  assumes "state st = PENDING"
    and "parse_ClientHello env buffer = Some ch"
    and "state (onClientHello env buffer st) = PENDING"
  shows "encryption (onClientHello env buffer st) =
           (if ch_encryption ch AND ENCRYPTION_AES256_GCM \<noteq> 0 \<and> hasAesNi env
            then ENCRYPTION_AES256_GCM else ENCRYPTION_CHACHA20_POLY1305)
         \<and> (\<exists>iv. sent (onClientHello env buffer st) =
               sent st @ [MsgServerHello
                 \<lparr>sh_encryption = encryption (onClientHello env buffer st), sh_iv = iv\<rparr>])
         \<and> (encryption (onClientHello env buffer st) = ENCRYPTION_AES256_GCM \<longleftrightarrow>
              ch_encryption ch AND ENCRYPTION_AES256_GCM \<noteq> 0 \<and> hasAesNi env)"
  using assms
  by (auto simp add: onClientHello_def Let_def finish_def sendMessage_def proto_defs
      split: if_splits option.splits sum.splits prod.splits)

theorem cipher_selection_witness:
  "state (onClientHello (demo_env\<lparr>hasAesNi := True\<rparr>) [3, 1, 0, 0] (demo_server\<lparr>state := PENDING\<rparr>)) = PENDING
   \<and> encryption (onClientHello (demo_env\<lparr>hasAesNi := True\<rparr>) [3, 1, 0, 0] (demo_server\<lparr>state := PENDING\<rparr>))
       = ENCRYPTION_AES256_GCM
   \<and> state (onClientHello demo_env [3, 1, 0, 0] (demo_server\<lparr>state := PENDING\<rparr>)) = PENDING
   \<and> encryption (onClientHello demo_env [3, 1, 0, 0] (demo_server\<lparr>state := PENDING\<rparr>))
       = ENCRYPTION_CHACHA20_POLY1305
   \<and> state (onClientHello (demo_env\<lparr>hasAesNi := True\<rparr>) [2, 1, 0, 0] (demo_server\<lparr>state := PENDING\<rparr>)) = PENDING
   \<and> encryption (onClientHello (demo_env\<lparr>hasAesNi := True\<rparr>) [2, 1, 0, 0] (demo_server\<lparr>state := PENDING\<rparr>))
       = ENCRYPTION_CHACHA20_POLY1305"
  using cipher_selection [of "demo_server\<lparr>state := PENDING\<rparr>" "demo_env\<lparr>hasAesNi := True\<rparr>" "[3, 1, 0, 0]"]
    cipher_selection [of "demo_server\<lparr>state := PENDING\<rparr>" demo_env "[3, 1, 0, 0]"]
    cipher_selection [of "demo_server\<lparr>state := PENDING\<rparr>" "demo_env\<lparr>hasAesNi := True\<rparr>" "[2, 1, 0, 0]"]
  by (simp add: demo_env_def demo_server_def onClientHello_def Let_def finish_def sendMessage_def
      proto_defs KeyPair_isValid_def)

subsection \<open>SrpClientKeyExchange\<close>

text \<open>
  C7. In onClientKeyExchange, once the SRP server key has been computed (it is not empty):
  under either negotiated cipher the new session_key is the BLAKE2s-256 digest of the
  previous session_key (when it was not empty) followed by srp_key, and
  onSessionKeyChanged is invoked with it; under any other value of \<open>encryption\<close> the
  handshake finishes with UNKNOWN_ERROR, onSessionKeyChanged is not invoked and the session
  key is left as it was.
\<close>

theorem srp_key_mix:
  assumes "parse_SrpClientKeyExchange env buffer = Some m"
    and "BigNum_isValid (BigNum_fromStdString env (cke_a m))"
    and "cke_iv m \<noteq> []"
    and "srp_key = createSrpKey env (st\<lparr>srp_A := BigNum_fromStdString env (cke_a m)\<rparr>)"
    and "srp_key \<noteq> []"
  shows "(encryption st = ENCRYPTION_AES256_GCM \<or> encryption st = ENCRYPTION_CHACHA20_POLY1305 \<longrightarrow>
            session_key (onClientKeyExchange env buffer st) =
              digest env BLAKE2s256 ((if session_key st \<noteq> [] then session_key st else []) @ srp_key)
            \<and> key_changes (onClientKeyExchange env buffer st) =
                key_changes st @ [session_key (onClientKeyExchange env buffer st)])
       \<and> (encryption st \<noteq> ENCRYPTION_AES256_GCM \<and> encryption st \<noteq> ENCRYPTION_CHACHA20_POLY1305 \<longrightarrow>
            key_changes (onClientKeyExchange env buffer st) = key_changes st
            \<and> session_key (onClientKeyExchange env buffer st) = session_key st
            \<and> sent (onClientKeyExchange env buffer st) = sent st
            \<and> (state st = PENDING \<longrightarrow>
                 finished (onClientKeyExchange env buffer st) = Some UNKNOWN_ERROR))"
proof -
  have k: "createSrpKey env (st\<lparr>srp_A := a, decrypt_iv := d\<rparr>) = createSrpKey env (st\<lparr>srp_A := a\<rparr>)"
    for a d
    by (simp add: createSrpKey_def)
  show ?thesis
    using assms
    by (auto simp add: onClientKeyExchange_def Let_def k finish_def onSessionKeyChanged_def
        doSessionChallenge_def sendMessage_def hash_defs split: prod.splits)
qed

theorem srp_key_mix_witness:
  "createSrpKey demo_env (demo_server\<lparr>srp_N := Some 23, srp_A := Some 7\<rparr>) = [6]
   \<and> session_key (onClientKeyExchange demo_env [7, 8]
        (demo_server\<lparr>state := PENDING, srp_N := Some 23, encryption := 2, session_key := [5]\<rparr>))
       = digest demo_env BLAKE2s256 [5, 6]
   \<and> session_key (onClientKeyExchange demo_env [7, 8]
        (demo_server\<lparr>state := PENDING, srp_N := Some 23, encryption := 1\<rparr>))
       = digest demo_env BLAKE2s256 [6]
   \<and> finished (onClientKeyExchange demo_env [7, 8]
        (demo_server\<lparr>state := PENDING, srp_N := Some 23, encryption := 0\<rparr>))
       = Some UNKNOWN_ERROR
   \<and> key_changes (onClientKeyExchange demo_env [7, 8]
        (demo_server\<lparr>state := PENDING, srp_N := Some 23, encryption := 0\<rparr>)) = []"
  using
    srp_key_mix [where env = demo_env and buffer = "[7, 8]" and st =
      "demo_server\<lparr>state := PENDING, srp_N := Some 23, encryption := 2, session_key := [5]\<rparr>",
      OF _ _ _ refl]
    srp_key_mix [where env = demo_env and buffer = "[7, 8]" and st =
      "demo_server\<lparr>state := PENDING, srp_N := Some 23, encryption := 1\<rparr>", OF _ _ _ refl]
    srp_key_mix [where env = demo_env and buffer = "[7, 8]" and st =
      "demo_server\<lparr>state := PENDING, srp_N := Some 23, encryption := 0\<rparr>", OF _ _ _ refl]
  by (simp add: demo_env_def demo_server_def proto_defs createSrpKey_def verify_A_mod_N_def
      BigNum_isValid_def)

subsection \<open>SrpIdentify and the malformed SRP inputs\<close>

text \<open>
  C1. In onIdentify, for a username that reaches the lookup (the message parses and the
  name is not empty): when the lookup fails, or the record is not ENABLED, or its SRP group
  is absent from the group table, the handler sets session_types to 0, (N, g) to the
  8192-bit group, s to the BLAKE2b-512 digest of seed_key followed by the UTF-8 username,
  and v to calc_v(user_name, seed_key, s, N, g); in all other cases it takes the sessions
  mask, group, salt and verifier of the record.
\<close>

theorem identify_lookup:
  assumes "parse_SrpIdentify env buffer = Some m"
    and "utf16FromUtf8 env (si_username m) \<noteq> []"
    and "user = ul_find (user_list st) (utf16FromUtf8 env (si_username m))"
  shows "(\<not> User_isValid env user \<or> u_flags user AND User_ENABLED env = 0 \<or>
          pairByGroup env (u_group user) = None \<longrightarrow>
            session_types (onIdentify env buffer st) = 0
            \<and> srp_N (onIdentify env buffer st) = BigNum_fromStdString env (fst (kSrpNgPair_8192 env))
            \<and> srp_g (onIdentify env buffer st) = BigNum_fromStdString env (snd (kSrpNgPair_8192 env))
            \<and> srp_s (onIdentify env buffer st) =
                BigNum_fromByteArray env
                  (digest env BLAKE2b512 (ul_seedKey (user_list st) @ si_username m))
            \<and> srp_v (onIdentify env buffer st) =
                calc_v env (utf16FromUtf8 env (si_username m)) (ul_seedKey (user_list st))
                  (srp_s (onIdentify env buffer st)) (srp_N (onIdentify env buffer st))
                  (srp_g (onIdentify env buffer st)))
       \<and> (\<forall>Ng_pair. User_isValid env user \<and> u_flags user AND User_ENABLED env \<noteq> 0 \<and>
            pairByGroup env (u_group user) = Some Ng_pair \<longrightarrow>
              session_types (onIdentify env buffer st) = u_sessions user
              \<and> srp_N (onIdentify env buffer st) = BigNum_fromStdString env (fst Ng_pair)
              \<and> srp_g (onIdentify env buffer st) = BigNum_fromStdString env (snd Ng_pair)
              \<and> srp_s (onIdentify env buffer st) = BigNum_fromByteArray env (u_salt user)
              \<and> srp_v (onIdentify env buffer st) = BigNum_fromByteArray env (u_verifier user))"
proof -
  let ?st' = "onIdentify env buffer st"
  have phantom: "session_types ?st' = 0
            \<and> srp_N ?st' = BigNum_fromStdString env (fst (kSrpNgPair_8192 env))
            \<and> srp_g ?st' = BigNum_fromStdString env (snd (kSrpNgPair_8192 env))
            \<and> srp_s ?st' =
                BigNum_fromByteArray env
                  (digest env BLAKE2b512 (ul_seedKey (user_list st) @ si_username m))
            \<and> srp_v ?st' =
                calc_v env (utf16FromUtf8 env (si_username m)) (ul_seedKey (user_list st))
                  (srp_s ?st') (srp_N ?st') (srp_g ?st')"
    if "\<not> User_isValid env user \<or> u_flags user AND User_ENABLED env = 0 \<or>
          pairByGroup env (u_group user) = None"
    using assms that
    by (auto simp add: onIdentify_def Let_def finish_def sendMessage_def Random_byteArray_def
        hash_defs split: prod.splits option.splits)
  have real: "session_types ?st' = u_sessions user
              \<and> srp_N ?st' = BigNum_fromStdString env (fst Ng_pair)
              \<and> srp_g ?st' = BigNum_fromStdString env (snd Ng_pair)
              \<and> srp_s ?st' = BigNum_fromByteArray env (u_salt user)
              \<and> srp_v ?st' = BigNum_fromByteArray env (u_verifier user)"
    if "User_isValid env user" "u_flags user AND User_ENABLED env \<noteq> 0"
       "pairByGroup env (u_group user) = Some Ng_pair" for Ng_pair
    using assms that
    by (auto simp add: onIdentify_def Let_def finish_def sendMessage_def Random_byteArray_def
        split: prod.splits)
  show ?thesis
    using phantom real by blast
qed

theorem identify_lookup_witness:
  "utf16FromUtf8 demo_env [122] \<noteq> []
   \<and> \<not> User_isValid demo_env (ul_find demo_users [122])
   \<and> session_types (onIdentify demo_env [122] (demo_server\<lparr>state := PENDING, session_types := 7\<rparr>)) = 0
   \<and> srp_N (onIdentify demo_env [122] (demo_server\<lparr>state := PENDING, session_types := 7\<rparr>)) = Some 47
   \<and> srp_s (onIdentify demo_env [122] (demo_server\<lparr>state := PENDING, session_types := 7\<rparr>))
       = BigNum_fromByteArray demo_env (digest demo_env BLAKE2b512 [42, 122])
   \<and> u_flags (ul_find demo_users [98]) AND User_ENABLED demo_env = 0
   \<and> session_types (onIdentify demo_env [98] (demo_server\<lparr>state := PENDING, session_types := 7\<rparr>)) = 0
   \<and> pairByGroup demo_env (u_group (ul_find demo_users [99])) = None
   \<and> session_types (onIdentify demo_env [99] (demo_server\<lparr>state := PENDING, session_types := 7\<rparr>)) = 0
   \<and> srp_N (onIdentify demo_env [99] (demo_server\<lparr>state := PENDING, session_types := 7\<rparr>)) = Some 47
   \<and> session_types (onIdentify demo_env [97] (demo_server\<lparr>state := PENDING, session_types := 7\<rparr>)) = 5
   \<and> srp_N (onIdentify demo_env [97] (demo_server\<lparr>state := PENDING, session_types := 7\<rparr>)) = Some 23
   \<and> srp_v (onIdentify demo_env [97] (demo_server\<lparr>state := PENDING, session_types := 7\<rparr>)) = Some 9"
  using
    identify_lookup [where env = demo_env and buffer = "[122]" and st =
      "demo_server\<lparr>state := PENDING, session_types := 7\<rparr>", OF _ _ refl]
    identify_lookup [where env = demo_env and buffer = "[98]" and st =
      "demo_server\<lparr>state := PENDING, session_types := 7\<rparr>", OF _ _ refl]
    identify_lookup [where env = demo_env and buffer = "[99]" and st =
      "demo_server\<lparr>state := PENDING, session_types := 7\<rparr>", OF _ _ refl]
    identify_lookup [where env = demo_env and buffer = "[97]" and st =
      "demo_server\<lparr>state := PENDING, session_types := 7\<rparr>", OF _ _ refl]
  by (simp add: demo_env_def demo_server_def demo_users_def)

text \<open>
  C4, as stated, fails: a well-formed A with A = N, so A mod N = 0, and a non-empty iv
  finish with UNKNOWN_ERROR, the code of a failed createSrpKey, not with PROTOCOL_ERROR.
\<close>

theorem malformed_srp_input_counterexample:
  "map_option cke_a (parse_SrpClientKeyExchange demo_env [23, 8]) = Some [23]
   \<and> map_option cke_iv (parse_SrpClientKeyExchange demo_env [23, 8]) = Some [8]
   \<and> BigNum_fromStdString demo_env [23] = Some 23
   \<and> srp_N (demo_server\<lparr>state := PENDING, srp_N := Some 23\<rparr>) = Some 23
   \<and> (23::nat) mod 23 = 0
   \<and> finished (onClientKeyExchange demo_env [23, 8]
        (demo_server\<lparr>state := PENDING, srp_N := Some 23\<rparr>)) = Some UNKNOWN_ERROR"
  by (simp add: demo_env_def demo_server_def onClientKeyExchange_def createSrpKey_def
      verify_A_mod_N_def BigNum_isValid_def finish_def Let_def)

text \<open>
  C4, amended. In a pending handshake an SrpIdentify whose username decodes to the empty
  UTF-16 string finishes with PROTOCOL_ERROR; an SrpClientKeyExchange whose A is not a
  valid big number or whose iv is empty finishes with PROTOCOL_ERROR; an
  SrpClientKeyExchange with a valid A, A mod N = 0, and a non-empty iv finishes with
  UNKNOWN_ERROR.
\<close>

theorem malformed_srp_input:
  assumes "state st = PENDING"
  shows "(\<forall>m. parse_SrpIdentify env buffer = Some m \<and> utf16FromUtf8 env (si_username m) = [] \<longrightarrow>
            finished (onIdentify env buffer st) = Some PROTOCOL_ERROR)
       \<and> (\<forall>m. parse_SrpClientKeyExchange env buffer = Some m \<and>
            (\<not> BigNum_isValid (BigNum_fromStdString env (cke_a m)) \<or> cke_iv m = []) \<longrightarrow>
              finished (onClientKeyExchange env buffer st) = Some PROTOCOL_ERROR)
       \<and> (\<forall>m a n. parse_SrpClientKeyExchange env buffer = Some m \<and>
            BigNum_fromStdString env (cke_a m) = Some a \<and> cke_iv m \<noteq> [] \<and>
            srp_N st = Some n \<and> a mod n = 0 \<longrightarrow>
              finished (onClientKeyExchange env buffer st) = Some UNKNOWN_ERROR)"
proof (intro conjI allI impI)
  fix m
  assume "parse_SrpIdentify env buffer = Some m \<and> utf16FromUtf8 env (si_username m) = []"
  with assms show "finished (onIdentify env buffer st) = Some PROTOCOL_ERROR"
    by (simp add: onIdentify_def finish_def)
next
  fix m
  assume "parse_SrpClientKeyExchange env buffer = Some m \<and>
            (\<not> BigNum_isValid (BigNum_fromStdString env (cke_a m)) \<or> cke_iv m = [])"
  with assms show "finished (onClientKeyExchange env buffer st) = Some PROTOCOL_ERROR"
    by (auto simp add: onClientKeyExchange_def finish_def Let_def)
next
  fix m a n
  assume "parse_SrpClientKeyExchange env buffer = Some m \<and>
            BigNum_fromStdString env (cke_a m) = Some a \<and> cke_iv m \<noteq> [] \<and>
            srp_N st = Some n \<and> a mod n = 0"
  with assms show "finished (onClientKeyExchange env buffer st) = Some UNKNOWN_ERROR"
    by (auto simp add: onClientKeyExchange_def finish_def Let_def createSrpKey_def
        verify_A_mod_N_def BigNum_isValid_def)
qed

theorem malformed_srp_input_witness:
  "state (demo_server\<lparr>state := PENDING, srp_N := Some 23\<rparr>) = PENDING
   \<and> utf16FromUtf8 demo_env [] = []
   \<and> finished (onIdentify demo_env [] (demo_server\<lparr>state := PENDING, srp_N := Some 23\<rparr>))
       = Some PROTOCOL_ERROR
   \<and> finished (onClientKeyExchange demo_env [0, 8] (demo_server\<lparr>state := PENDING, srp_N := Some 23\<rparr>))
       = Some PROTOCOL_ERROR
   \<and> finished (onClientKeyExchange demo_env [7, 0] (demo_server\<lparr>state := PENDING, srp_N := Some 23\<rparr>))
       = Some PROTOCOL_ERROR
   \<and> finished (onClientKeyExchange demo_env [46, 8] (demo_server\<lparr>state := PENDING, srp_N := Some 23\<rparr>))
       = Some UNKNOWN_ERROR"
  using
    malformed_srp_input [where env = demo_env and buffer = "[]" and st =
      "demo_server\<lparr>state := PENDING, srp_N := Some 23\<rparr>"]
    malformed_srp_input [where env = demo_env and buffer = "[0, 8]" and st =
      "demo_server\<lparr>state := PENDING, srp_N := Some 23\<rparr>"]
    malformed_srp_input [where env = demo_env and buffer = "[7, 0]" and st =
      "demo_server\<lparr>state := PENDING, srp_N := Some 23\<rparr>"]
    malformed_srp_input [where env = demo_env and buffer = "[46, 8]" and st =
      "demo_server\<lparr>state := PENDING, srp_N := Some 23\<rparr>"]
  by (simp add: demo_env_def demo_server_def BigNum_isValid_def)

subsection \<open>Configuration\<close>

lemma setPrivateKey_fields:
  "anonymous_access (snd (setPrivateKey env k st)) = anonymous_access st
   \<and> session_types (snd (setPrivateKey env k st)) = session_types st"
  by (simp add: setPrivateKey_def Let_def Random_byteArray_def split: prod.splits)

lemma setPrivateKey_valid:
  "fst (setPrivateKey env k st) \<Longrightarrow> KeyPair_isValid (key_pair (snd (setPrivateKey env k st)))"
  by (simp add: setPrivateKey_def Let_def Random_byteArray_def split: prod.splits if_splits)

lemma configure_consistent:
  "session_types_consistent st \<Longrightarrow> session_types_consistent (snd (configure env call st))"
proof (cases call)
  case (SetPrivateKey k)
  assume "session_types_consistent st"
  then show ?thesis
    using setPrivateKey_fields [of env k st]
    by (simp add: SetPrivateKey session_types_consistent_def)
next
  case (SetAnonymousAccess access types)
  assume "session_types_consistent st"
  then show ?thesis
    by (cases access) (simp_all add: SetAnonymousAccess session_types_consistent_def setAnonymousAccess_def)
qed

lemma configure_all_consistent:
  "session_types_consistent st \<Longrightarrow> session_types_consistent (configure_all env calls st)"
  by (induction calls arbitrary: st) (simp_all add: configure_consistent)

lemma configure_success:
  assumes "session_types_consistent st" and "fst (configure env call st)"
  shows "config_invariant (snd (configure env call st))"
proof (cases call)
  case (SetPrivateKey k)
  then show ?thesis
    using assms setPrivateKey_fields [of env k st] setPrivateKey_valid [of env k st]
    by (auto simp add: config_invariant_def session_types_consistent_def split: if_splits)
next
  case (SetAnonymousAccess access types)
  then show ?thesis
    using assms
    by (cases access)
      (auto simp add: config_invariant_def setAnonymousAccess_def split: if_splits)
qed

text \<open>
  C9. Outside the STOPPED state setPrivateKey and setAnonymousAccess return false and
  leave the object as it is; setAnonymousAccess(ENABLE, m) succeeds only with a valid key
  pair and a nonzero m; setAnonymousAccess(DISABLE, m) stores session_types = 0; hence,
  starting from an object whose session_types agree with its anonymous_access, after every
  successful setter call anonymous_access = ENABLE implies a valid key pair and
  session_types \<noteq> 0, and anonymous_access = DISABLE implies session_types = 0.
\<close>

theorem configuration_invariants:
  "(state st \<noteq> STOPPED \<longrightarrow>
      setPrivateKey env private_key st = (False, st)
      \<and> setAnonymousAccess access types st = (False, st))
   \<and> (fst (setAnonymousAccess ENABLE types st) \<longrightarrow>
        KeyPair_isValid (key_pair st) \<and> types \<noteq> 0)
   \<and> (state st = STOPPED \<longrightarrow>
        setAnonymousAccess DISABLE types st =
          (True, st\<lparr>session_types := 0, anonymous_access := DISABLE\<rparr>))
   \<and> (session_types_consistent st \<longrightarrow>
        (\<forall>calls call. fst (configure env call (configure_all env calls st)) \<longrightarrow>
           config_invariant (snd (configure env call (configure_all env calls st)))))"
proof -
  have a: "state st \<noteq> STOPPED \<longrightarrow>
      setPrivateKey env private_key st = (False, st)
      \<and> setAnonymousAccess access types st = (False, st)"
    by (simp add: setPrivateKey_def setAnonymousAccess_def)
  have b: "fst (setAnonymousAccess ENABLE types st) \<longrightarrow>
        KeyPair_isValid (key_pair st) \<and> types \<noteq> 0"
    by (simp add: setAnonymousAccess_def split: if_splits)
  have c: "state st = STOPPED \<longrightarrow>
        setAnonymousAccess DISABLE types st =
          (True, st\<lparr>session_types := 0, anonymous_access := DISABLE\<rparr>)"
    by (simp add: setAnonymousAccess_def)
  have d: "session_types_consistent st \<longrightarrow>
        (\<forall>calls call. fst (configure env call (configure_all env calls st)) \<longrightarrow>
           config_invariant (snd (configure env call (configure_all env calls st))))"
    by (intro impI allI configure_success configure_all_consistent)
  show ?thesis
    by (rule conjI [OF a conjI [OF b conjI [OF c d]]])
qed

theorem configuration_invariants_witness:
  "session_types_consistent demo_server
   \<and> fst (configure demo_env (SetAnonymousAccess ENABLE 5)
        (configure_all demo_env [SetPrivateKey [1, 2]] demo_server))
   \<and> config_invariant (snd (configure demo_env (SetAnonymousAccess ENABLE 5)
        (configure_all demo_env [SetPrivateKey [1, 2]] demo_server)))
   \<and> anonymous_access (snd (configure demo_env (SetAnonymousAccess ENABLE 5)
        (configure_all demo_env [SetPrivateKey [1, 2]] demo_server))) = ENABLE
   \<and> state (demo_server\<lparr>state := PENDING\<rparr>) \<noteq> STOPPED
   \<and> setPrivateKey demo_env [1, 2] (demo_server\<lparr>state := PENDING\<rparr>)
       = (False, demo_server\<lparr>state := PENDING\<rparr>)
   \<and> setAnonymousAccess DISABLE 5 (demo_server\<lparr>state := PENDING\<rparr>)
       = (False, demo_server\<lparr>state := PENDING\<rparr>)
   \<and> \<not> fst (setAnonymousAccess ENABLE 5 demo_server)
   \<and> session_types (snd (setAnonymousAccess DISABLE 5 demo_server)) = 0"
proof -
  have s: "session_types_consistent demo_server"
    by (simp add: session_types_consistent_def demo_server_def)
  have f: "fst (configure demo_env (SetAnonymousAccess ENABLE 5)
        (configure_all demo_env [SetPrivateKey [1, 2]] demo_server))"
    by (simp add: setPrivateKey_def setAnonymousAccess_def demo_env_def demo_server_def
        KeyPair_isValid_def Random_byteArray_def kIvSize_def Let_def)
  have e: "anonymous_access (snd (configure demo_env (SetAnonymousAccess ENABLE 5)
        (configure_all demo_env [SetPrivateKey [1, 2]] demo_server))) = ENABLE"
    by (simp add: setPrivateKey_def setAnonymousAccess_def demo_env_def demo_server_def
        KeyPair_isValid_def Random_byteArray_def kIvSize_def Let_def)
  have k: "\<not> KeyPair_isValid (key_pair demo_server)"
    by (simp add: demo_server_def KeyPair_isValid_def)
  have t: "state demo_server = STOPPED"
    by (simp add: demo_server_def)
  note stopped = configuration_invariants [of demo_server demo_env "[1, 2]" DISABLE 5]
  note pending =
    configuration_invariants [of "demo_server\<lparr>state := PENDING\<rparr>" demo_env "[1, 2]" DISABLE 5]
  have i: "config_invariant (snd (configure demo_env (SetAnonymousAccess ENABLE 5)
        (configure_all demo_env [SetPrivateKey [1, 2]] demo_server)))"
    by (rule stopped [THEN conjunct2, THEN conjunct2, THEN conjunct2, THEN mp, OF s,
          THEN spec, THEN spec, THEN mp, OF f])
  show ?thesis
    using s f e k t i stopped pending
    by simp
qed

text \<open>
  The invariant is one of successful calls: setPrivateKey stores the key pair before it
  tests it, so a failed call with a bad key leaves anonymous access enabled without a valid
  key pair; onStarted checks the invariant again for that reason.
\<close>

lemma failed_setPrivateKey_drops_key_pair:
  "\<not> fst (setPrivateKey demo_env [0]
       (configure_all demo_env [SetPrivateKey [1, 2], SetAnonymousAccess ENABLE 5] demo_server))
   \<and> \<not> config_invariant (snd (setPrivateKey demo_env [0]
       (configure_all demo_env [SetPrivateKey [1, 2], SetAnonymousAccess ENABLE 5] demo_server)))"
  by (simp add: setPrivateKey_def setAnonymousAccess_def demo_env_def demo_server_def
      KeyPair_isValid_def Random_byteArray_def kIvSize_def Let_def config_invariant_def)

subsection \<open>The selected session type\<close>

text \<open>
  For a one-bit session type mask the handler records what \<open>value()\<close> returns for it
  and tests session_types against the recorded value.
\<close>

lemma session_type_recorded:
  assumes "parse_SessionResponse env buffer = Some r"
    and "BitSet_count (BitSet (sr_session_type r)) = 1"
  shows "session_type (onSessionResponse env buffer st) = BitSet_value (BitSet (sr_session_type r))
       \<and> (state st = PENDING \<longrightarrow>
            finished (onSessionResponse env buffer st) =
              Some (if session_types st AND session_type (onSessionResponse env buffer st) = 0
                    then SESSION_DENIED else SUCCESS))"
  using assms by (simp add: onSessionResponse_def setPeerVersion_def finish_def Let_def)

end
